theory Spec2Isabelle
  imports Complex_Main "HOL-Library.AList" "HOL-Library.Sublist"
begin

section \<open>Numbers, errors and dates\<close>

text \<open>
  The dashboard (pages/03_added.py and the second page file) computes on pandas columns of
  float64 prices and on naive Python datetimes. The embedding keeps the control flow and the
  formulas of the source and idealises the number type as follows.

  \<^item> A price read from a data frame is a \<^typ>\<open>real\<close>: the bars of the data model are
    finite numbers. Arithmetic on finite values is exact; the rounding and the overflow of
    IEEE doubles and the sign of a zero are not modelled.
  \<^item> A computed value is an \<open>fval\<close>: a finite real, an infinity or NaN. numpy and pandas
    do not raise on a division by zero, they return an infinity or NaN, and the model keeps
    that behaviour instead of HOL's \<open>x / 0 = 0\<close>.
  \<^item> The tables of the source format their numbers with two decimals
    (\<^verbatim>\<open>f"{x:.2f}"\<close>); the model keeps the numbers before formatting.
\<close>

datatype py_error = IndexError | OverflowError

datatype fval = Fin real | PInf | NInf | NaN

text \<open>\<^verbatim>\<open>a / b\<close> on two finite float64 operands.\<close>

definition fdiv :: "real \<Rightarrow> real \<Rightarrow> fval" where
  "fdiv a b =
     (if b \<noteq> 0 then Fin (a / b)
      else if a = 0 then NaN
      else if 0 < a then PInf
      else NInf)"

text \<open>\<^verbatim>\<open>v * c\<close> for a computed value and a finite constant.\<close>

fun fmul :: "fval \<Rightarrow> real \<Rightarrow> fval" where
  "fmul (Fin a) c = Fin (a * c)"
| "fmul PInf c = (if 0 < c then PInf else if c < 0 then NInf else NaN)"
| "fmul NInf c = (if 0 < c then NInf else if c < 0 then PInf else NaN)"
| "fmul NaN c = NaN"


text \<open>
  A naive \<^verbatim>\<open>datetime\<close> is the number of microseconds since \<^verbatim>\<open>datetime.min\<close>
  (0001-01-01 00:00:00); comparison of naive datetimes is comparison of these numbers.
  \<open>ymd2ord\<close> is the proleptic Gregorian ordinal of a date (day 1 is 0001-01-01), as
  Python's \<^verbatim>\<open>date.toordinal\<close> computes it.
\<close>

type_synonym datetime = int

definition us_per_day :: int where
  "us_per_day = 86400000000"

definition is_leap :: "int \<Rightarrow> bool" where
  "is_leap y = (y mod 4 = 0 \<and> (y mod 100 \<noteq> 0 \<or> y mod 400 = 0))"

definition days_before_year :: "int \<Rightarrow> int" where
  "days_before_year y = (y - 1) * 365 + (y - 1) div 4 - (y - 1) div 100 + (y - 1) div 400"

definition days_before_month :: "int \<Rightarrow> int \<Rightarrow> int" where
  "days_before_month y m =
     sum_list (take (nat (m - 1)) [31, 28, 31, 30, 31, 30, 31, 31, 30, 31, 30, 31])
       + (if 2 < m \<and> is_leap y then 1 else 0)"

definition ymd2ord :: "int \<Rightarrow> int \<Rightarrow> int \<Rightarrow> int" where
  "ymd2ord y m d = days_before_year y + days_before_month y m + d"

text \<open>\<^verbatim>\<open>datetime(y, m, d)\<close>: midnight of a valid calendar date.\<close>

definition mk_datetime :: "int \<Rightarrow> int \<Rightarrow> int \<Rightarrow> datetime" where
  "mk_datetime y m d = (ymd2ord y m d - 1) * us_per_day"

text \<open>
  \<^verbatim>\<open>t - timedelta(days=n)\<close>: Python raises OverflowError when the result would lie
  before \<^verbatim>\<open>datetime.min\<close>.
\<close>

definition minus_days :: "datetime \<Rightarrow> int \<Rightarrow> py_error + datetime" where
  "minus_days t n =
     (if t - n * us_per_day < 0 then Inl OverflowError else Inr (t - n * us_per_day))"

section \<open>Data frames\<close>

text \<open>
  One row of the frame that \<^verbatim>\<open>get_stock_data\<close> returns: the index (the bar's
  timestamp) and the price columns the pages read. A data frame is the list of its rows in
  index order; \<^verbatim>\<open>data.empty\<close> is the empty list and \<^verbatim>\<open>None\<close> is \<open>None\<close>.
\<close>

record row =
  Date :: datetime
  Open :: real
  High :: real
  Low :: real
  Close :: real
  Volume :: real

text \<open>A row after \<^verbatim>\<open>data['Normalized Close'] = ...\<close> has added the column.\<close>

record nrow = row +
  Normalized_Close :: fval

section \<open>Normalisation (03_added.py, all-weather section)\<close>

text \<open>
  Lines 376-377:
  \<^verbatim>\<open>
  initial_price = data['Close'].iloc[0]
  data['Normalized Close'] = (data['Close'] / initial_price) * 100
  \<close>
  \<^verbatim>\<open>.iloc[0]\<close> raises IndexError on a frame with no rows.
\<close>

definition add_normalized :: "real \<Rightarrow> row \<Rightarrow> nrow" where
  "add_normalized initial_price r =
     \<lparr>Date = Date r, Open = Open r, High = High r, Low = Low r, Close = Close r,
      Volume = Volume r, Normalized_Close = fmul (fdiv (Close r) initial_price) 100\<rparr>"

definition normalize_close :: "row list \<Rightarrow> py_error + nrow list" where
  "normalize_close data =
     (case data of
        [] \<Rightarrow> Inl IndexError
      | r0 # _ \<Rightarrow> Inr (map (add_normalized (Close r0)) data))"

text \<open>
  The body of the loading loop of the section (lines 369-380), as one step on the state.
  \<^verbatim>\<open>get_stock_data\<close> is the external price source, taken as a parameter: it
  returns a frame or \<^verbatim>\<open>None\<close>.
  The state is the dictionary \<^verbatim>\<open>aw_data\<close> in insertion order and the warnings shown
  so far, each recorded by the asset name and the ticker it reports.
  \<^verbatim>\<open>
  for asset_name, ticker in ALL_WEATHER_ASSETS.items():
      data = get_stock_data(ticker, selected_aw_period_value)
      if data is not None and not data.empty:
          initial_price = data['Close'].iloc[0]
          data['Normalized Close'] = (data['Close'] / initial_price) * 100
          aw_data[asset_name] = data
      else:
          st.warning(...)
  \<close>
\<close>

record aw_state =
  aw_data :: "(string \<times> nrow list) list"
  warnings :: "(string \<times> string) list"

definition load_asset ::
  "(string \<Rightarrow> string \<Rightarrow> row list option) \<Rightarrow> string \<Rightarrow> string \<times> string \<Rightarrow> aw_state
     \<Rightarrow> py_error + aw_state" where
  "load_asset get_stock_data period item st =
     (let asset_name = fst item; ticker = snd item in
      case get_stock_data ticker period of
        None \<Rightarrow> Inr (st\<lparr>warnings := warnings st @ [(asset_name, ticker)]\<rparr>)
      | Some data \<Rightarrow>
          if data \<noteq> [] then
            (case normalize_close data of
               Inl e \<Rightarrow> Inl e
             | Inr nd \<Rightarrow> Inr (st\<lparr>aw_data := AList.update asset_name nd (aw_data st)\<rparr>))
          else Inr (st\<lparr>warnings := warnings st @ [(asset_name, ticker)]\<rparr>))"

section \<open>Performance tables\<close>

text \<open>
  \<^verbatim>\<open>Series.std()\<close> of pandas: the standard deviation with divisor \<open>n - ddof\<close>,
  NaN when there are at most \<open>ddof\<close> values. The pages call it without an argument, and
  the default of pandas is \<open>ddof = 1\<close> (the sample estimator).
\<close>

definition pd_mean :: "real list \<Rightarrow> real" where
  "pd_mean xs = sum_list xs / real (length xs)"

definition pd_std :: "nat \<Rightarrow> real list \<Rightarrow> fval" where
  "pd_std ddof xs =
     (if length xs \<le> ddof then NaN
      else Fin (sqrt (sum_list (map (\<lambda>x. (x - pd_mean xs)\<^sup>2) xs) / real (length xs - ddof))))"

text \<open>
  The company table (03_added.py, lines 275-294). A frame with no rows adds no table row.
  \<^verbatim>\<open>
  if len(data) > 0:
      start_price = data['Close'].iloc[0]
      end_price = data['Close'].iloc[-1]
      total_return = ((end_price - start_price) / start_price) * 100
      max_price = data['Close'].max()
      min_price = data['Close'].min()
      std_dev = data['Close'].std()
  \<close>
\<close>

record performance =
  start_price :: real
  end_price :: real
  total_return :: fval
  max_price :: real
  min_price :: real
  std_dev :: fval

definition performance_row :: "row list \<Rightarrow> performance option" where
  "performance_row data =
     (if length data > 0 then
        (let start_price = Close (hd data); end_price = Close (last data) in
         Some \<lparr>start_price = start_price, end_price = end_price,
               total_return = fmul (fdiv (end_price - start_price) start_price) 100,
               max_price = Max (set (map Close data)),
               min_price = Min (set (map Close data)),
               std_dev = pd_std 1 (map Close data)\<rparr>)
      else None)"

text \<open>
  The table of the second page file (lines 30-43): the same start price, end price, return and
  \<^verbatim>\<open>std()\<close>, with no test of the length; \<^verbatim>\<open>.iloc[0]\<close> raises on an empty frame.
\<close>

record etf_performance =
  etf_start_price :: real
  etf_end_price :: real
  etf_total_return :: fval
  volatility :: fval

definition etf_performance_row :: "row list \<Rightarrow> py_error + etf_performance" where
  "etf_performance_row data =
     (case data of
        [] \<Rightarrow> Inl IndexError
      | r0 # _ \<Rightarrow>
          (let start_price = Close r0; end_price = Close (last data) in
           Inr \<lparr>etf_start_price = start_price, etf_end_price = end_price,
                etf_total_return = fmul (fdiv (end_price - start_price) start_price) 100,
                volatility = pd_std 1 (map Close data)\<rparr>))"



section \<open>Crisis regions\<close>

text \<open>
  \<^verbatim>\<open>CRISIS_PERIODS\<close> maps a name to \<^verbatim>\<open>[start, end, description]\<close>; a Python
  dictionary iterates in insertion order, so it is an association list. The names and the
  descriptions of the source are Korean text; they are rendered in English here, and nothing
  below depends on them.
\<close>

type_synonym crisis = "string \<times> datetime \<times> datetime \<times> string"

definition CRISIS_PERIODS :: "crisis list" where
  "CRISIS_PERIODS =
     [(''COVID-19 pandemic shock'', mk_datetime 2020 2 19, mk_datetime 2020 4 1,
         ''Sharp fall caused by the COVID-19 pandemic''),
      (''2022 inflation / rate hikes'', mk_datetime 2022 1 1, mk_datetime 2022 12 31,
         ''Market decline caused by inflation and rate hikes''),
      (''Silicon Valley Bank failure'', mk_datetime 2023 3 8, mk_datetime 2023 3 20,
         ''Financial market unrest caused by the SVB failure'')]"

text \<open>
  A figure is modelled by the vertical rectangles added to it, in the order of the
  \<^verbatim>\<open>add_vrect\<close> calls; \<open>crisis_vrect\<close> is the rectangle of the one call in the source.
\<close>

record vrect =
  x0 :: datetime
  x1 :: datetime
  fillcolor :: string
  layer :: string
  line_width :: int
  annotation_text :: string
  annotation_position :: string
  annotation_font_size :: int
  annotation_font_color :: string

definition crisis_vrect :: "string \<Rightarrow> datetime \<Rightarrow> datetime \<Rightarrow> vrect" where
  "crisis_vrect name crisis_start crisis_end =
     \<lparr>x0 = crisis_start, x1 = crisis_end, fillcolor = ''rgba(255, 0, 0, 0.1)'',
      layer = ''below'', line_width = 0, annotation_text = name,
      annotation_position = ''top left'', annotation_font_size = 10,
      annotation_font_color = ''red''\<rparr>"

text \<open>
  \<^verbatim>\<open>add_crisis_regions(fig, start_date, end_date)\<close> (lines 89-108), with the catalogue
  it iterates over as a parameter. The source mutates the figure; the model returns it.
  \<^verbatim>\<open>
  for name, dates in CRISIS_PERIODS.items():
      crisis_start = dates[0]; crisis_end = dates[1]; description = dates[2]
      if not (crisis_end < start_date or crisis_start > end_date):
          fig.add_vrect(x0=crisis_start, x1=crisis_end, ..., annotation_text=name, ...)
  \<close>
\<close>

fun add_crisis_regions_in :: "crisis list \<Rightarrow> vrect list \<Rightarrow> datetime \<Rightarrow> datetime \<Rightarrow> vrect list" where
  "add_crisis_regions_in [] fig start_date end_date = fig"
| "add_crisis_regions_in ((name, crisis_start, crisis_end, description) # rest) fig
       start_date end_date =
     add_crisis_regions_in rest
       (if \<not> (crisis_end < start_date \<or> crisis_start > end_date)
        then fig @ [crisis_vrect name crisis_start crisis_end]
        else fig)
       start_date end_date"

definition add_crisis_regions :: "vrect list \<Rightarrow> datetime \<Rightarrow> datetime \<Rightarrow> vrect list" where
  "add_crisis_regions = add_crisis_regions_in CRISIS_PERIODS"

section \<open>Plot ranges\<close>

text \<open>
  The start of the plotted range, from the period code and \<^verbatim>\<open>datetime.now()\<close>, which is
  a parameter here. The company section (lines 168-178) and the all-weather section
  (lines 356-366) each have their own chain; both end in
  \<^verbatim>\<open>else:  # Fallback to 3 years\<close>.
\<close>

definition plot_start_date :: "string \<Rightarrow> datetime \<Rightarrow> py_error + datetime" where
  "plot_start_date selected_period_value end_date =
     (if selected_period_value = ''1y'' then minus_days end_date 365
      else if selected_period_value = ''2y'' then minus_days end_date (2 * 365)
      else if selected_period_value = ''3y'' then minus_days end_date (3 * 365)
      else if selected_period_value = ''5y'' then minus_days end_date (5 * 365)
      else minus_days end_date (3 * 365))"

definition plot_start_date_aw :: "string \<Rightarrow> datetime \<Rightarrow> py_error + datetime" where
  "plot_start_date_aw selected_aw_period_value end_date_aw =
     (if selected_aw_period_value = ''1y'' then minus_days end_date_aw 365
      else if selected_aw_period_value = ''3y'' then minus_days end_date_aw (3 * 365)
      else if selected_aw_period_value = ''5y'' then minus_days end_date_aw (5 * 365)
      else if selected_aw_period_value = ''10y'' then minus_days end_date_aw (10 * 365)
      else minus_days end_date_aw (3 * 365))"

text \<open>The pair \<open>(plot start, end)\<close> that a section passes to \<open>add_crisis_regions\<close>.\<close>

definition plot_range :: "string \<Rightarrow> datetime \<Rightarrow> py_error + datetime \<times> datetime" where
  "plot_range selected_period_value now =
     (case plot_start_date selected_period_value now of
        Inl e \<Rightarrow> Inl e
      | Inr start \<Rightarrow> Inr (start, now))"

definition plot_range_aw :: "string \<Rightarrow> datetime \<Rightarrow> py_error + datetime \<times> datetime" where
  "plot_range_aw selected_aw_period_value now =
     (case plot_start_date_aw selected_aw_period_value now of
        Inl e \<Rightarrow> Inl e
      | Inr start \<Rightarrow> Inr (start, now))"

section \<open>Test data\<close>

text \<open>A bar whose four prices are all \<open>c\<close>, at time \<open>t\<close>, for the concrete scenarios.\<close>

abbreviation bar :: "datetime \<Rightarrow> real \<Rightarrow> row" where
  "bar t c \<equiv> \<lparr>Date = t, Open = c, High = c, Low = c, Close = c, Volume = 0\<rparr>"

section \<open>Properties of the normalisation\<close>

lemma fdiv_nonzero: "b \<noteq> 0 \<Longrightarrow> fdiv a b = Fin (a / b)"
  by (simp add: fdiv_def)

lemma fdiv_zero:
  "fdiv a 0 = (if a = 0 then NaN else if 0 < a then PInf else NInf)"
  by (simp add: fdiv_def)

lemma normalize_Cons:
  "normalize_close (r # rs) = Inr (map (add_normalized (Close r)) (r # rs))"
  by (simp add: normalize_close_def)

lemma Normalized_Close_add [simp]:
  "Normalized_Close (add_normalized c r) = fmul (fdiv (Close r) c) 100"
  by (simp add: add_normalized_def)

lemma Close_add [simp]: "Close (add_normalized c r) = Close r"
  by (simp add: add_normalized_def)



text \<open>
  C9. For a non-empty frame whose first close is not zero, the normalised frame has the same
  rows with the same timestamp, open, high, low, close and volume; only the column
  \<open>Normalized Close\<close> is new.
\<close>

theorem normalize_keeps_columns:
  assumes "data \<noteq> []" and "Close (hd data) \<noteq> 0"
  shows "\<exists>nd. normalize_close data = Inr nd
            \<and> list_all2 (\<lambda>r n. Date n = Date r \<and> Open n = Open r \<and> High n = High r
                  \<and> Low n = Low r \<and> Close n = Close r \<and> Volume n = Volume r) data nd"
proof -
  from assms(1) obtain r rs where d: "data = r # rs" by (cases data) auto
  have "list_all2 (\<lambda>r n. Date n = Date r \<and> Open n = Open r \<and> High n = High r
                  \<and> Low n = Low r \<and> Close n = Close r \<and> Volume n = Volume r)
          xs (map (add_normalized c) xs)" for xs c
    by (induction xs) (simp_all add: add_normalized_def)
  then show ?thesis unfolding d by (simp add: normalize_Cons del: list.map)
qed

theorem normalize_keeps_columns_witness:
  "\<exists>nd. normalize_close [\<lparr>Date = 1, Open = 49, High = 52, Low = 48, Close = 50, Volume = 7\<rparr>,
                    \<lparr>Date = 2, Open = 50, High = 111, Low = 50, Close = 110, Volume = 9\<rparr>] = Inr nd
        \<and> map Date nd = [1, 2] \<and> map Open nd = [49, 50] \<and> map High nd = [52, 111]
        \<and> map Low nd = [48, 50] \<and> map Close nd = [50, 110] \<and> map Volume nd = [7, 9]"
  using normalize_keeps_columns
    [of "[\<lparr>Date = 1, Open = 49, High = 52, Low = 48, Close = 50, Volume = 7\<rparr>,
          \<lparr>Date = 2, Open = 50, High = 111, Low = 50, Close = 110, Volume = 9\<rparr>]"]
  by (simp add: normalize_Cons add_normalized_def)

section \<open>Properties of the performance tables\<close>

lemma performance_row_Some:
  "data \<noteq> [] \<Longrightarrow> performance_row data =
     Some \<lparr>start_price = Close (hd data), end_price = Close (last data),
           total_return = fmul (fdiv (Close (last data) - Close (hd data)) (Close (hd data))) 100,
           max_price = Max (set (map Close data)),
           min_price = Min (set (map Close data)),
           std_dev = pd_std 1 (map Close data)\<rparr>"
  by (simp add: performance_row_def Let_def)

lemma performance_row_nonempty: "performance_row data = Some p \<Longrightarrow> data \<noteq> []"
  by (auto simp: performance_row_def split: if_splits)

lemma etf_performance_row_Inr:
  "etf_performance_row data = Inr e \<Longrightarrow> volatility e = pd_std 1 (map Close data)"
  by (auto simp: etf_performance_row_def Let_def split: list.splits)

text \<open>
  C3. For a non-empty frame the table row has the first close as start price, the last close
  as end price, the return \<open>(end - start) / start * 100\<close> (a finite number when the start
  price is not zero), and the largest and the smallest close as maximum and minimum. The
  witness is the scenario of the closes 100, 110, 90.
\<close>

theorem summarize_prices:
  assumes "data \<noteq> []"
  shows "\<exists>p. performance_row data = Some p
           \<and> start_price p = Close (hd data)
           \<and> end_price p = Close (last data)
           \<and> total_return p = fmul (fdiv (end_price p - start_price p) (start_price p)) 100
           \<and> (start_price p \<noteq> 0 \<longrightarrow>
                 total_return p = Fin ((end_price p - start_price p) / start_price p * 100))
           \<and> max_price p \<in> Close ` set data \<and> (\<forall>r \<in> set data. Close r \<le> max_price p)
           \<and> min_price p \<in> Close ` set data \<and> (\<forall>r \<in> set data. min_price p \<le> Close r)"
proof -
  let ?S = "set (map Close data)"
  have fin: "finite ?S" and ne: "?S \<noteq> {}" using assms by simp_all
  have "Max ?S \<in> ?S" using fin ne by (rule Max_in)
  moreover have "Min ?S \<in> ?S" using fin ne by (rule Min_in)
  moreover have "\<forall>r \<in> set data. Close r \<le> Max ?S" using fin by simp
  moreover have "\<forall>r \<in> set data. Min ?S \<le> Close r" using fin by simp
  ultimately show ?thesis
    using assms by (simp add: performance_row_Some fdiv_nonzero)
qed

theorem summarize_prices_witness:
  "\<exists>p. performance_row [bar 1 100, bar 2 110, bar 3 90] = Some p
      \<and> start_price p = 100 \<and> end_price p = 90 \<and> total_return p = Fin (- 10)
      \<and> max_price p = 110 \<and> min_price p = 90"
  using summarize_prices [of "[bar 1 100, bar 2 110, bar 3 90]"]
  by (simp add: performance_row_Some)

text \<open>
  C2 as stated fails: \<^verbatim>\<open>data['Close'].std()\<close> is the sample standard deviation, and on
  a frame of one row it is NaN, where the population estimator (divisor \<open>n\<close>) gives 0.
\<close>

theorem summarize_single_counterexample:
  "map_option std_dev (performance_row [bar 1 100]) = Some NaN
   \<and> map_option std_dev (performance_row [bar 1 100]) \<noteq> Some (Fin 0)
   \<and> map_sum id volatility (etf_performance_row [bar 1 100]) = Inr NaN
   \<and> pd_std 0 [100] = Fin 0"
  by (simp add: performance_row_Some etf_performance_row_def pd_std_def pd_mean_def)

text \<open>
  C2, amended. The volatility of a table row is the sample standard deviation of the closes
  (divisor \<open>n - 1\<close>) on a frame of two or more rows. On a frame of one row it is NaN, the
  maximum, the minimum and the end price equal the start price, and the return is 0 when that
  price is not zero and NaN when it is. The table of the second page file has the same
  volatility.
\<close>

theorem summarize_sample_std:
  assumes "performance_row data = Some p"
  shows "(length data = 1 \<longrightarrow>
            std_dev p = NaN \<and> max_price p = start_price p \<and> min_price p = start_price p
            \<and> end_price p = start_price p
            \<and> total_return p = (if start_price p = 0 then NaN else Fin 0))
         \<and> (2 \<le> length data \<longrightarrow>
            std_dev p = Fin (sqrt ((\<Sum>c\<leftarrow>map Close data.
                  (c - (\<Sum>c\<leftarrow>map Close data. c) / real (length data))\<^sup>2)
                  / real (length data - 1))))
         \<and> (etf_performance_row data = Inr e \<longrightarrow> volatility e = std_dev p)"
proof -
  from assms have ne: "data \<noteq> []" by (rule performance_row_nonempty)
  from assms have p: "p = \<lparr>start_price = Close (hd data), end_price = Close (last data),
           total_return = fmul (fdiv (Close (last data) - Close (hd data)) (Close (hd data))) 100,
           max_price = Max (set (map Close data)),
           min_price = Min (set (map Close data)),
           std_dev = pd_std 1 (map Close data)\<rparr>"
    using performance_row_Some [OF ne] by simp
  have one: "length data = 1 \<Longrightarrow> \<exists>r. data = [r]"
    by (cases data) auto
  show ?thesis
  proof (intro conjI impI)
    assume "2 \<le> length data"
    then show "std_dev p = Fin (sqrt ((\<Sum>c\<leftarrow>map Close data.
                  (c - (\<Sum>c\<leftarrow>map Close data. c) / real (length data))\<^sup>2)
                  / real (length data - 1)))"
      by (simp add: p pd_std_def pd_mean_def)
  next
    assume "etf_performance_row data = Inr e"
    then show "volatility e = std_dev p"
      by (simp add: p etf_performance_row_Inr)
  qed (use one in \<open>auto simp: p pd_std_def fdiv_def\<close>)
qed

theorem summarize_sample_std_witness:
  "(\<exists>p. performance_row [bar 1 100] = Some p \<and> std_dev p = NaN \<and> max_price p = 100
        \<and> min_price p = 100 \<and> start_price p = 100 \<and> end_price p = 100
        \<and> total_return p = Fin 0)
   \<and> (\<exists>p e. performance_row [bar 1 1, bar 2 3] = Some p \<and> std_dev p = Fin (sqrt 2)
        \<and> etf_performance_row [bar 1 1, bar 2 3] = Inr e \<and> volatility e = Fin (sqrt 2))"
proof -
  obtain p where a: "performance_row [bar 1 100] = Some p"
    by (simp add: performance_row_Some)
  obtain q where b: "performance_row [bar 1 1, bar 2 3] = Some q"
    by (simp add: performance_row_Some)
  obtain e where c: "etf_performance_row [bar 1 1, bar 2 3] = Inr e"
    by (simp add: etf_performance_row_def)
  have sp: "start_price p = 100"
    using a by (auto simp: performance_row_Some)
  have "std_dev p = NaN \<and> max_price p = 100 \<and> min_price p = 100 \<and> end_price p = 100
          \<and> total_return p = Fin 0"
    using summarize_sample_std [OF a] sp by simp
  with a sp have first: "\<exists>p. performance_row [bar 1 100] = Some p \<and> std_dev p = NaN
        \<and> max_price p = 100 \<and> min_price p = 100 \<and> start_price p = 100 \<and> end_price p = 100
        \<and> total_return p = Fin 0"
    by blast
  have "std_dev q = Fin (sqrt 2) \<and> volatility e = std_dev q"
    using summarize_sample_std [OF b, of e] c by simp
  with b c have second: "\<exists>p e. performance_row [bar 1 1, bar 2 3] = Some p
        \<and> std_dev p = Fin (sqrt 2)
        \<and> etf_performance_row [bar 1 1, bar 2 3] = Inr e \<and> volatility e = Fin (sqrt 2)"
    by auto
  from first second show ?thesis by (rule conjI)
qed




section \<open>Division by a zero price\<close>

text \<open>
  C6 as stated fails: with a first close of 0 the normalisation returns a frame whose new
  column holds NaN and an infinity, and the return of the table row is an infinity. Nothing
  is raised.
\<close>

theorem normalize_zero_base_counterexample:
  "normalize_close [bar 1 0, bar 2 5] =
     Inr [\<lparr>Date = 1, Open = 0, High = 0, Low = 0, Close = 0, Volume = 0,
           Normalized_Close = NaN\<rparr>,
          \<lparr>Date = 2, Open = 5, High = 5, Low = 5, Close = 5, Volume = 0,
           Normalized_Close = PInf\<rparr>]
   \<and> map_option total_return (performance_row [bar 1 0, bar 2 5]) = Some PInf"
  by (simp add: normalize_Cons add_normalized_def fdiv_zero performance_row_Some)

text \<open>
  C6, amended. A zero base price is not signalled. On a non-empty frame whose first close is
  0 the normalisation returns, and the normalised close of a row is NaN when its close is 0,
  plus infinity when it is positive and minus infinity when it is negative; the table row is
  produced, and its return is NaN, plus infinity or minus infinity by the same rule on the
  last close.
\<close>

theorem zero_base_not_signalled:
  assumes "data \<noteq> []" and "Close (hd data) = 0"
  shows "\<exists>nd p. normalize_close data = Inr nd
           \<and> map Normalized_Close nd =
               map (\<lambda>r. if Close r = 0 then NaN else if 0 < Close r then PInf else NInf) data
           \<and> performance_row data = Some p
           \<and> total_return p =
               (if Close (last data) = 0 then NaN
                else if 0 < Close (last data) then PInf else NInf)"
proof -
  from assms(1) obtain r rs where d: "data = r # rs" by (cases data) auto
  with assms(2) have z: "Close r = 0" by simp
  have "map Normalized_Close (map (add_normalized 0) xs)
          = map (\<lambda>r. if Close r = 0 then NaN else if 0 < Close r then PInf else NInf) xs" for xs
    by (induction xs) (simp_all add: fdiv_zero)
  then have "map Normalized_Close (map (add_normalized (Close r)) data)
          = map (\<lambda>r. if Close r = 0 then NaN else if 0 < Close r then PInf else NInf) data"
    by (simp add: z)
  moreover have "fmul (fdiv (Close (last data) - Close (hd data)) (Close (hd data))) 100
          = (if Close (last data) = 0 then NaN
             else if 0 < Close (last data) then PInf else NInf)"
    using assms(2) by (simp add: fdiv_zero)
  ultimately show ?thesis
    using assms(1) unfolding d normalize_Cons
    by (simp add: performance_row_Some del: list.map)
qed

theorem zero_base_not_signalled_witness:
  "\<exists>nd p. normalize_close [bar 1 0, bar 2 5, bar 3 0] = Inr nd
      \<and> map Normalized_Close nd = [NaN, PInf, NaN]
      \<and> performance_row [bar 1 0, bar 2 5, bar 3 0] = Some p
      \<and> total_return p = NaN"
  using zero_base_not_signalled [of "[bar 1 0, bar 2 5, bar 3 0]"] by simp

section \<open>Empty frames\<close>

text \<open>
  C7 as stated fails: the two lines of the normalisation raise IndexError on a frame with no
  rows, and the loop guards them with \<^verbatim>\<open>not data.empty\<close>. For an empty frame the step
  stores no frame at all under the asset's name, not an empty normalised one, and shows a
  warning.
\<close>

theorem empty_series_counterexample:
  "normalize_close [] = Inl IndexError
   \<and> load_asset (\<lambda>ticker period. Some []) ''3y'' (''Gold'', ''GLD'')
        \<lparr>aw_data = [], warnings = []\<rparr>
       = Inr \<lparr>aw_data = [], warnings = [(''Gold'', ''GLD'')]\<rparr>"
  by (simp add: normalize_close_def load_asset_def)

text \<open>
  C7, amended. When the price source returns an empty frame (or none), the loading step does
  not fail: it leaves \<open>aw_data\<close> as it was, so that the asset has nothing to display, and
  adds one warning for the asset.
\<close>

theorem empty_series_skipped:
  assumes "get_stock_data ticker period = None \<or> get_stock_data ticker period = Some []"
  shows "load_asset get_stock_data period (asset_name, ticker) st
           = Inr (st\<lparr>warnings := warnings st @ [(asset_name, ticker)]\<rparr>)"
  using assms by (auto simp: load_asset_def)

theorem empty_series_skipped_witness:
  "load_asset (\<lambda>ticker period. if ticker = ''GLD'' then Some [] else None) ''3y''
       (''Gold'', ''GLD'') \<lparr>aw_data = [(''Stocks'', [])], warnings = []\<rparr>
     = Inr \<lparr>aw_data = [(''Stocks'', [])], warnings = [(''Gold'', ''GLD'')]\<rparr>"
  using empty_series_skipped
    [of "\<lambda>ticker period. if ticker = ''GLD'' then Some [] else None" "''GLD''" "''3y''"
        "''Gold''" "\<lparr>aw_data = [(''Stocks'', [])], warnings = []\<rparr>"]
  by simp

section \<open>Properties of the crisis regions\<close>

lemma mk_datetime_values:
  "mk_datetime 2020 1 1 = 737424 * us_per_day"
  "mk_datetime 2020 2 19 = 737473 * us_per_day"
  "mk_datetime 2020 4 1 = 737515 * us_per_day"
  "mk_datetime 2022 1 1 = 738155 * us_per_day"
  "mk_datetime 2022 12 31 = 738519 * us_per_day"
  "mk_datetime 2023 3 8 = 738586 * us_per_day"
  "mk_datetime 2023 3 20 = 738598 * us_per_day"
  "mk_datetime 2025 1 1 = 739251 * us_per_day"
  by (simp_all add: mk_datetime_def ymd2ord_def days_before_year_def days_before_month_def
      is_leap_def)

lemma add_crisis_regions_in_filter:
  "add_crisis_regions_in cat fig s e =
     fig @ map (\<lambda>(name, cs, ce, d). crisis_vrect name cs ce)
             (filter (\<lambda>(name, cs, ce, d). \<not> (ce < s \<or> cs > e)) cat)"
  by (induction cat arbitrary: fig) auto

lemma crisis_vrect_inject:
  "crisis_vrect n cs ce = crisis_vrect n' cs' ce' \<longleftrightarrow> n = n' \<and> cs = cs' \<and> ce = ce'"
  by (auto simp: crisis_vrect_def)

text \<open>
  C4. For every window of the catalogue and every display range, the call adds the window's
  rectangle to the figure if and only if not (window end < display start or window start >
  display end). In particular, when the display range ends exactly where the window starts
  (both being ranges, start before end), the rectangle is added.
\<close>

theorem crisis_overlap_iff:
  assumes "(name, cs, ce, d) \<in> set cat"
  shows "(crisis_vrect name cs ce \<in> set (drop (length fig) (add_crisis_regions_in cat fig s e)))
           = (\<not> (ce < s \<or> cs > e))
         \<and> (s \<le> e \<and> cs \<le> ce \<and> e = cs \<longrightarrow>
              crisis_vrect name cs ce \<in> set (drop (length fig) (add_crisis_regions_in cat fig s e)))"
proof -
  have iff: "(crisis_vrect name cs ce \<in> set (drop (length fig) (add_crisis_regions_in cat fig s e)))
           = (\<not> (ce < s \<or> cs > e))"
    using assms by (force simp: add_crisis_regions_in_filter crisis_vrect_inject)
  then show ?thesis by auto
qed

theorem crisis_overlap_iff_witness:
  "(crisis_vrect ''COVID-19 pandemic shock'' (mk_datetime 2020 2 19) (mk_datetime 2020 4 1)
      \<in> set (add_crisis_regions [] (mk_datetime 2020 1 1) (mk_datetime 2020 2 19)))
   \<and> add_crisis_regions [] (mk_datetime 2020 1 1) (mk_datetime 2020 2 19)
       = [crisis_vrect ''COVID-19 pandemic shock'' (mk_datetime 2020 2 19) (mk_datetime 2020 4 1)]"
proof -
  have m: "(''COVID-19 pandemic shock'', mk_datetime 2020 2 19, mk_datetime 2020 4 1,
            ''Sharp fall caused by the COVID-19 pandemic'') \<in> set CRISIS_PERIODS"
    by (simp add: CRISIS_PERIODS_def)
  have "crisis_vrect ''COVID-19 pandemic shock'' (mk_datetime 2020 2 19) (mk_datetime 2020 4 1)
      \<in> set (add_crisis_regions [] (mk_datetime 2020 1 1) (mk_datetime 2020 2 19))"
    using crisis_overlap_iff [OF m, of "[]" "mk_datetime 2020 1 1" "mk_datetime 2020 2 19"]
    by (simp add: add_crisis_regions_def mk_datetime_values us_per_day_def)
  moreover have "add_crisis_regions [] (mk_datetime 2020 1 1) (mk_datetime 2020 2 19)
       = [crisis_vrect ''COVID-19 pandemic shock'' (mk_datetime 2020 2 19) (mk_datetime 2020 4 1)]"
    by (simp add: add_crisis_regions_def CRISIS_PERIODS_def mk_datetime_values us_per_day_def)
  ultimately show ?thesis by simp
qed

text \<open>
  C8. The function has no failing branch: for every catalogue and every pair of dates it
  returns the figure with some rectangles added after those it had. On the empty catalogue it
  returns the figure as it was, and the rectangles added are those of a subsequence of the
  catalogue, in the catalogue's order.
\<close>

theorem overlapping_windows_total_ordered:
  "add_crisis_regions_in [] fig s e = fig
   \<and> (\<exists>ws. subseq ws cat
         \<and> add_crisis_regions_in cat fig s e
             = fig @ map (\<lambda>(name, cs, ce, d). crisis_vrect name cs ce) ws)"
proof -
  let ?ws = "filter (\<lambda>(name, cs, ce, d). \<not> (ce < s \<or> cs > e)) cat"
  have "subseq ?ws cat"
    by (rule subseq_filter_left)
  moreover have "add_crisis_regions_in cat fig s e
      = fig @ map (\<lambda>(name, cs, ce, d). crisis_vrect name cs ce) ?ws"
    by (rule add_crisis_regions_in_filter)
  ultimately have "\<exists>ws. subseq ws cat
         \<and> add_crisis_regions_in cat fig s e
             = fig @ map (\<lambda>(name, cs, ce, d). crisis_vrect name cs ce) ws"
    by blast
  then show ?thesis by simp
qed

theorem overlapping_windows_total_ordered_witness:
  "map annotation_text (add_crisis_regions [] (mk_datetime 2022 12 31) (mk_datetime 2025 1 1))
     = [''2022 inflation / rate hikes'', ''Silicon Valley Bank failure'']
   \<and> add_crisis_regions [] (mk_datetime 2025 1 1) (mk_datetime 2025 1 1) = []
   \<and> (\<exists>ws. subseq ws CRISIS_PERIODS
         \<and> add_crisis_regions [] (mk_datetime 2022 12 31) (mk_datetime 2025 1 1)
             = map (\<lambda>(name, cs, ce, d). crisis_vrect name cs ce) ws)"
proof -
  have "\<exists>ws. subseq ws CRISIS_PERIODS
         \<and> add_crisis_regions [] (mk_datetime 2022 12 31) (mk_datetime 2025 1 1)
             = map (\<lambda>(name, cs, ce, d). crisis_vrect name cs ce) ws"
    using overlapping_windows_total_ordered
      [of "[]" "mk_datetime 2022 12 31" "mk_datetime 2025 1 1" CRISIS_PERIODS]
    by (simp add: add_crisis_regions_def)
  moreover have "map annotation_text
       (add_crisis_regions [] (mk_datetime 2022 12 31) (mk_datetime 2025 1 1))
     = [''2022 inflation / rate hikes'', ''Silicon Valley Bank failure'']"
    by (simp add: add_crisis_regions_def CRISIS_PERIODS_def mk_datetime_values us_per_day_def
        crisis_vrect_def)
  moreover have "add_crisis_regions [] (mk_datetime 2025 1 1) (mk_datetime 2025 1 1) = []"
    by (simp add: add_crisis_regions_def CRISIS_PERIODS_def mk_datetime_values us_per_day_def)
  ultimately show ?thesis by simp
qed

section \<open>Properties of the plot ranges\<close>

lemma minus_days_ok: "n * us_per_day \<le> t \<Longrightarrow> minus_days t n = Inr (t - n * us_per_day)"
  by (simp add: minus_days_def)

text \<open>
  C5 as stated fails: a code that a chain does not list gives the range of three years, not
  an error. That holds for a code outside the five, and for \<open>10y\<close> in the company section
  and \<open>2y\<close> in the all-weather section, whose chains do not list them.
\<close>

theorem invalid_period_counterexample:
  "plot_range ''4y'' (mk_datetime 2025 1 1)
     = Inr (mk_datetime 2025 1 1 - 1095 * us_per_day, mk_datetime 2025 1 1)
   \<and> plot_range ''10y'' (mk_datetime 2025 1 1)
     = Inr (mk_datetime 2025 1 1 - 1095 * us_per_day, mk_datetime 2025 1 1)
   \<and> plot_range_aw ''2y'' (mk_datetime 2025 1 1)
     = Inr (mk_datetime 2025 1 1 - 1095 * us_per_day, mk_datetime 2025 1 1)"
  by (simp add: plot_range_def plot_range_aw_def plot_start_date_def plot_start_date_aw_def
      minus_days_def mk_datetime_values us_per_day_def)

text \<open>
  C5, amended. With \<open>now\<close> at least 3650 days after \<^verbatim>\<open>datetime.min\<close>, the range ends
  at \<open>now\<close> and starts a fixed number of days before it: in the company section 365, 730,
  1095 and 1825 days for \<open>1y\<close>, \<open>2y\<close>, \<open>3y\<close> and \<open>5y\<close>; in the all-weather section 365, 1095,
  1825 and 3650 days for \<open>1y\<close>, \<open>3y\<close>, \<open>5y\<close> and \<open>10y\<close>; and 1095 days for every other code.
  No code fails.
\<close>

theorem plot_range_fallback:
  assumes "3650 * us_per_day \<le> now"
  shows "plot_range p now =
           Inr (now - (if p = ''1y'' then 365 else if p = ''2y'' then 730
                       else if p = ''5y'' then 1825 else 1095) * us_per_day, now)
         \<and> plot_range_aw p now =
           Inr (now - (if p = ''1y'' then 365 else if p = ''5y'' then 1825
                       else if p = ''10y'' then 3650 else 1095) * us_per_day, now)"
proof -
  have "n * us_per_day \<le> now" if "n \<le> 3650" for n
  proof -
    have "n * us_per_day \<le> 3650 * us_per_day"
      using that by (simp add: us_per_day_def)
    with assms show ?thesis by linarith
  qed
  then have "minus_days now n = Inr (now - n * us_per_day)" if "n \<le> 3650" for n
    using that by (simp add: minus_days_ok)
  then show ?thesis
    by (simp add: plot_range_def plot_range_aw_def plot_start_date_def plot_start_date_aw_def)
qed

theorem plot_range_fallback_witness:
  "plot_range ''2y'' (mk_datetime 2025 1 1)
     = Inr (mk_datetime 2025 1 1 - 730 * us_per_day, mk_datetime 2025 1 1)
   \<and> plot_range_aw ''10y'' (mk_datetime 2025 1 1)
     = Inr (mk_datetime 2025 1 1 - 3650 * us_per_day, mk_datetime 2025 1 1)
   \<and> plot_range ''6mo'' (mk_datetime 2025 1 1)
     = Inr (mk_datetime 2025 1 1 - 1095 * us_per_day, mk_datetime 2025 1 1)"
proof -
  have h: "3650 * us_per_day \<le> mk_datetime 2025 1 1"
    by (simp add: mk_datetime_values us_per_day_def)
  show ?thesis
    using plot_range_fallback [OF h, of "''2y''"] plot_range_fallback [OF h, of "''10y''"]
      plot_range_fallback [OF h, of "''6mo''"]
    by simp
qed

end
